theory Spec2Isabelle
  imports Main "HOL-Library.Sublist"
begin

section \<open>Data model\<close>

text \<open>
  The server of \<^verbatim>\<open>src/index.js\<close> keeps posts in a MongoDB collection and their images in an
  S3 bucket. A stored document has the three paths of \<^verbatim>\<open>postSchema\<close> (lines 48-52) and the
  identifier \<^verbatim>\<open>_id\<close> that Mongoose assigns. \<^verbatim>\<open>title\<close> and \<^verbatim>\<open>content\<close> come from optional form
  fields and may be absent; \<^verbatim>\<open>imageKey\<close> is always written by the compose handler.
\<close>

record post =
  post_id :: string
  title :: "string option"
  content :: "string option"
  imageKey :: string

text \<open>JSON values, as \<^verbatim>\<open>res.json\<close> sends them. An object keeps its properties in order.\<close>

datatype json =
    JNull
  | JString string
  | JNumber int
  | JArray "json list"
  | JObject "(string \<times> json) list"

datatype payload = Text string | Json json

record response =
  status :: nat
  body :: payload

datatype db_op = Find | FindOne | FindById | Save | DeleteOne

datatype error =
    TypeError
  | CastError
  | DbError db_op
  | MulterError
  | S3Error

text \<open>
  What becomes of a request: a response was sent, an error was passed to the framework
  (a middleware failed before the handler ran), or no response is ever sent.
\<close>

datatype outcome = Responded response | Unhandled error | Pending

subsection \<open>Requests to the object store\<close>

record s3_object =
  Bucket :: string
  Key :: string

record get_object = s3_object +
  ResponseContentType :: "string option"

record sign_options =
  expiresIn :: nat

subsection \<open>The environment\<close>

text \<open>
  Everything the handlers obtain from outside the file: configuration, the clock, the
  library function \<^verbatim>\<open>path.extname\<close>, the identifier Mongoose generates for a new document,
  and the outcome of every call to the database and to the object store. A call that
  rejects is \<open>False\<close> or \<open>None\<close>.
\<close>

record env =
  S3_BUCKET_NAME :: string
  date_now :: int
  path_extname :: "string \<Rightarrow> string"
  fresh_id :: string
  cast_object_id :: "string \<Rightarrow> bool"
  db_ok :: "db_op \<Rightarrow> bool"
  s3_put :: "s3_object \<Rightarrow> bool"
  s3_delete :: "s3_object \<Rightarrow> bool"
  getSignedUrl :: "get_object \<Rightarrow> sign_options \<Rightarrow> string option"

section \<open>The repository (Mongoose model \<^verbatim>\<open>Post\<close>)\<close>

text \<open>
  The collection is the list of its documents in iteration order. Queries on \<^verbatim>\<open>_id\<close>
  first cast the string to an ObjectId and reject when that fails; every operation
  rejects when the database does.
\<close>

definition find_all :: "env \<Rightarrow> post list \<Rightarrow> error + post list" where
  "find_all env repo = (if db_ok env Find then Inr repo else Inl (DbError Find))"

definition findOne :: "env \<Rightarrow> post list \<Rightarrow> string \<Rightarrow> error + post option" where
  "findOne env repo postID =
     (if \<not> cast_object_id env postID then Inl CastError
      else if \<not> db_ok env FindOne then Inl (DbError FindOne)
      else Inr (find (\<lambda>p. post_id p = postID) repo))"

definition findById :: "env \<Rightarrow> post list \<Rightarrow> string \<Rightarrow> error + post option" where
  "findById env repo postID =
     (if \<not> cast_object_id env postID then Inl CastError
      else if \<not> db_ok env FindById then Inl (DbError FindById)
      else Inr (find (\<lambda>p. post_id p = postID) repo))"

text \<open>\<^verbatim>\<open>_id\<close> carries a unique index: saving a document whose identifier is taken rejects.\<close>

definition save :: "env \<Rightarrow> post list \<Rightarrow> post \<Rightarrow> error + post list" where
  "save env repo p =
     (if \<not> db_ok env Save then Inl (DbError Save)
      else if post_id p \<in> set (map post_id repo) then Inl (DbError Save)
      else Inr (repo @ [p]))"

fun delete_first :: "('a \<Rightarrow> bool) \<Rightarrow> 'a list \<Rightarrow> 'a list" where
  "delete_first P [] = []"
| "delete_first P (x # xs) = (if P x then xs else x # delete_first P xs)"

definition deleteOne :: "env \<Rightarrow> post list \<Rightarrow> string \<Rightarrow> error + post list" where
  "deleteOne env repo postID =
     (if \<not> cast_object_id env postID then Inl CastError
      else if \<not> db_ok env DeleteOne then Inl (DbError DeleteOne)
      else Inr (delete_first (\<lambda>p. post_id p = postID) repo))"

section \<open>Serialisation\<close>

text \<open>
  \<^verbatim>\<open>post.toObject()\<close>, and \<^verbatim>\<open>res.json(post)\<close> alike, give the plain object of a document: its
  identifier, each schema path that is set, and the version key. The schema declares no
  hidden path and no transform.
\<close>

definition optional_field :: "string \<Rightarrow> string option \<Rightarrow> (string \<times> json) list" where
  "optional_field name v = (case v of None \<Rightarrow> [] | Some s \<Rightarrow> [(name, JString s)])"

definition toObject :: "post \<Rightarrow> (string \<times> json) list" where
  "toObject p =
     [(''_id'', JString (post_id p))]
     @ optional_field ''title'' (title p)
     @ optional_field ''content'' (content p)
     @ [(''imageKey'', JString (imageKey p)), (''__v'', JNumber 0)]"

text \<open>
  The object literal \<^verbatim>\<open>{ ...obj, name: v }\<close>: a property the spread already has keeps its
  place and takes the new value, a new one is added last.
\<close>

fun put_field :: "string \<Rightarrow> json \<Rightarrow> (string \<times> json) list \<Rightarrow> (string \<times> json) list" where
  "put_field name v [] = [(name, v)]"
| "put_field name v ((k, w) # rest) =
     (if k = name then (k, v) # rest else (k, w) # put_field name v rest)"

text \<open>Reading a property of a serialised object; \<open>None\<close> when it has no such property.\<close>

fun field :: "string \<Rightarrow> json \<Rightarrow> json option" where
  "field name (JObject props) = map_of props name"
| "field name _ = None"

definition send :: "nat \<Rightarrow> string \<Rightarrow> response" where
  "send code text = \<lparr>status = code, body = Text text\<rparr>"

definition send_json :: "nat \<Rightarrow> json \<Rightarrow> response" where
  "send_json code v = \<lparr>status = code, body = Json v\<rparr>"

section \<open>Promise.all\<close>

text \<open>
  \<^verbatim>\<open>Promise.all\<close> keeps one slot per input promise. A promise that fulfils stores its value
  in the slot of its own index, whenever that happens; the combined promise fulfils with
  the slots once all are filled. \<open>order\<close> lists the indices in the order in which the
  promises fulfil. The promises of the list handler never reject: their bodies catch.
\<close>

fun settle :: "nat list \<Rightarrow> 'a list \<Rightarrow> 'a option list \<Rightarrow> 'a option list" where
  "settle [] tasks slots = slots"
| "settle (i # rest) tasks slots =
     settle rest tasks (if i < length tasks then slots[i := Some (tasks ! i)] else slots)"

definition promise_all :: "nat list \<Rightarrow> 'a list \<Rightarrow> 'a list option" where
  "promise_all order tasks = those (settle order tasks (replicate (length tasks) None))"

section \<open>The handlers\<close>

subsection \<open>\<^verbatim>\<open>GET /\<close> (lines 56-83)\<close>

definition list_command :: "env \<Rightarrow> post \<Rightarrow> get_object" where
  "list_command env p =
     \<lparr>Bucket = S3_BUCKET_NAME env, Key = imageKey p, ResponseContentType = Some ''image/jpeg''\<rparr>"

definition with_url :: "env \<Rightarrow> post \<Rightarrow> json" where
  "with_url env p =
     (case getSignedUrl env (list_command env p) \<lparr>expiresIn = 3600\<rparr> of
        Some signedUrl \<Rightarrow> JObject (put_field ''imageUrl'' (JString signedUrl) (toObject p))
      | None \<Rightarrow> JObject (put_field ''imageUrl'' JNull (toObject p)))"

definition list_posts :: "env \<Rightarrow> nat list \<Rightarrow> post list \<Rightarrow> outcome" where
  "list_posts env order repo =
     (case find_all env repo of
        Inl err \<Rightarrow> Responded (send 500 ''Error fetching posts'')
      | Inr posts \<Rightarrow>
          (case promise_all order (map (with_url env) posts) of
             None \<Rightarrow> Pending
           | Some postsWithUrls \<Rightarrow> Responded (send_json 200 (JArray postsWithUrls))))"

subsection \<open>\<^verbatim>\<open>POST /compose\<close> (lines 38-46 and 85-99)\<close>

record multipart_file =
  fieldname :: string
  originalname :: string

record stored_file =
  key :: string

record compose_request =
  postTitle :: "string option"
  postContent :: "string option"
  files :: "multipart_file list"

fun decimal :: "nat \<Rightarrow> string" where
  "decimal n =
     (if n < 10 then [''0123456789'' ! n]
      else decimal (n div 10) @ [''0123456789'' ! (n mod 10)])"

declare decimal.simps [simp del]

definition number_to_string :: "int \<Rightarrow> string" where
  "number_to_string i = (if i < 0 then ''-'' @ decimal (nat (- i)) else decimal (nat i))"

text \<open>The \<^verbatim>\<open>key\<close> callback given to multer-s3 (line 43).\<close>

definition upload_key :: "env \<Rightarrow> multipart_file \<Rightarrow> string" where
  "upload_key env file =
     ''Images/'' @ fieldname file @ ''_'' @ number_to_string (date_now env)
       @ path_extname env (originalname file)"

text \<open>
  \<^verbatim>\<open>upload.single(name)\<close>: a request without a file part goes on with \<^verbatim>\<open>req.file\<close> undefined;
  one part under the expected field is stored in the bucket under the key of the callback
  and described in \<^verbatim>\<open>req.file\<close>; any other part, or a failed upload, ends the request with
  an error before the handler runs.
\<close>

definition upload_single :: "env \<Rightarrow> string \<Rightarrow> multipart_file list \<Rightarrow> error + stored_file option" where
  "upload_single env name parts =
     (case parts of
        [] \<Rightarrow> Inr None
      | [file] \<Rightarrow>
          (if fieldname file \<noteq> name then Inl MulterError
           else if s3_put env \<lparr>Bucket = S3_BUCKET_NAME env, Key = upload_key env file\<rparr>
             then Inr (Some \<lparr>key = upload_key env file\<rparr>)
           else Inl S3Error)
      | _ \<Rightarrow> Inl MulterError)"

text \<open>
  The handler proper. \<^verbatim>\<open>req.file.key\<close> throws a TypeError when \<^verbatim>\<open>req.file\<close> is undefined;
  the \<^verbatim>\<open>catch\<close> answers every error alike.
\<close>

definition compose_handler ::
  "env \<Rightarrow> post list \<Rightarrow> compose_request \<Rightarrow> stored_file option \<Rightarrow> response \<times> post list" where
  "compose_handler env repo req req_file =
     (case req_file of
        None \<Rightarrow> (send 500 ''Error saving post'', repo)
      | Some file \<Rightarrow>
          (let p = \<lparr>post_id = fresh_id env, title = postTitle req,
                    content = postContent req, imageKey = key file\<rparr>
           in case save env repo p of
                Inl err \<Rightarrow> (send 500 ''Error saving post'', repo)
              | Inr repo' \<Rightarrow> (send_json 201 (JObject (toObject p)), repo')))"

definition compose :: "env \<Rightarrow> post list \<Rightarrow> compose_request \<Rightarrow> outcome \<times> post list" where
  "compose env repo req =
     (case upload_single env ''file'' (files req) of
        Inl err \<Rightarrow> (Unhandled err, repo)
      | Inr req_file \<Rightarrow>
          (case compose_handler env repo req req_file of
             (res, repo') \<Rightarrow> (Responded res, repo')))"

subsection \<open>\<^verbatim>\<open>GET /posts/:postID\<close> (lines 101-123)\<close>

definition detail_command :: "env \<Rightarrow> post \<Rightarrow> get_object" where
  "detail_command env p =
     \<lparr>Bucket = S3_BUCKET_NAME env, Key = imageKey p, ResponseContentType = None\<rparr>"

definition get_post :: "env \<Rightarrow> post list \<Rightarrow> string \<Rightarrow> response" where
  "get_post env repo postID =
     (case findOne env repo postID of
        Inl err \<Rightarrow> send 500 ''Error fetching post''
      | Inr None \<Rightarrow> send 404 ''Post not found''
      | Inr (Some foundPost) \<Rightarrow>
          (case getSignedUrl env (detail_command env foundPost) \<lparr>expiresIn = 3600\<rparr> of
             None \<Rightarrow> send 500 ''Error fetching post''
           | Some signedUrl \<Rightarrow>
               send_json 200
                 (JObject (put_field ''imageUrl'' (JString signedUrl) (toObject foundPost)))))"

subsection \<open>\<^verbatim>\<open>DELETE /posts/:postID\<close> (lines 125-146)\<close>

definition delete_post :: "env \<Rightarrow> post list \<Rightarrow> string \<Rightarrow> response \<times> post list" where
  "delete_post env repo postID =
     (case findById env repo postID of
        Inl err \<Rightarrow> (send 500 ''Error deleting post'', repo)
      | Inr None \<Rightarrow> (send 404 ''Post not found'', repo)
      | Inr (Some p) \<Rightarrow>
          (if \<not> s3_delete env \<lparr>Bucket = S3_BUCKET_NAME env, Key = imageKey p\<rparr>
             then (send 500 ''Error deleting post'', repo)
           else
             (case deleteOne env repo postID of
                Inl err \<Rightarrow> (send 500 ''Error deleting post'', repo)
              | Inr repo' \<Rightarrow> (send 200 ''Post and image deleted'', repo'))))"

section \<open>Sample data\<close>

text \<open>A small environment and two stored posts, used to run the handlers on concrete inputs.\<close>

definition sample_env :: env where
  "sample_env =
     \<lparr>S3_BUCKET_NAME = ''blog'',
      date_now = 1700000000000,
      path_extname = (\<lambda>name. if name = ''cat.png'' then ''.png'' else []),
      fresh_id = ''p3'',
      cast_object_id = (\<lambda>s. s \<noteq> ''bad''),
      db_ok = (\<lambda>op. True),
      s3_put = (\<lambda>obj. True),
      s3_delete = (\<lambda>obj. True),
      getSignedUrl = (\<lambda>cmd opts.
        if Key cmd = ''Images/file_2.jpg'' then None
        else Some (''https://signed/'' @ Key cmd
               @ (case ResponseContentType cmd of None \<Rightarrow> [] | Some t \<Rightarrow> ''?type='' @ t)))\<rparr>"

definition post1 :: post where
  "post1 = \<lparr>post_id = ''p1'', title = Some ''Hello'', content = Some ''World'',
            imageKey = ''Images/file_1.png''\<rparr>"

definition post2 :: post where
  "post2 = \<lparr>post_id = ''p2'', title = None, content = Some ''Two'',
            imageKey = ''Images/file_2.jpg''\<rparr>"

definition sample_request :: compose_request where
  "sample_request =
     \<lparr>postTitle = Some ''Hello'', postContent = Some ''World'',
      files = [\<lparr>fieldname = ''file'', originalname = ''cat.png''\<rparr>]\<rparr>"

definition post3 :: post where
  "post3 = \<lparr>post_id = ''p3'', title = Some ''Hello'', content = Some ''World'',
            imageKey = ''Images/file_1700000000000.png''\<rparr>"

section \<open>Auxiliary facts\<close>


lemma length_settle: "length (settle order tasks slots) = length slots"
  by (induction order arbitrary: slots) simp_all

lemma nth_settle:
  "length slots = length tasks \<Longrightarrow> i < length tasks \<Longrightarrow>
   settle order tasks slots ! i = (if i \<in> set order then Some (tasks ! i) else slots ! i)"
proof (induction order arbitrary: slots)
  case Nil
  then show ?case by simp
next
  case (Cons j rest)
  then show ?case by (simp add: nth_list_update)
qed

lemma those_map_Some: "those (map Some xs) = Some xs"
  by (induction xs) simp_all

lemma promise_all_complete:
  assumes "{0..<length tasks} \<subseteq> set order"
  shows "promise_all order tasks = Some tasks"
proof -
  let ?slots = "settle order tasks (replicate (length tasks) None)"
  have len: "length ?slots = length tasks"
    by (simp add: length_settle)
  have "?slots ! i = Some (tasks ! i)" if "i < length tasks" for i
    using that assms nth_settle [of "replicate (length tasks) None" tasks i order]
    by auto
  with len have "?slots = map Some tasks"
    by (intro nth_equalityI) simp_all
  then show ?thesis
    by (simp add: promise_all_def those_map_Some)
qed

lemma map_of_put_field:
  "map_of (put_field name v props) k = (if k = name then Some v else map_of props k)"
  by (induction name v props rule: put_field.induct) auto

lemma field_imageUrl: "field ''imageUrl'' (JObject (put_field ''imageUrl'' v props)) = Some v"
  by (simp add: map_of_put_field)

lemma field_imageKey: "map_of (toObject p) ''imageKey'' = Some (JString (imageKey p))"
  by (simp add: toObject_def optional_field_def split: option.splits)

lemma field_id: "map_of (toObject p) ''_id'' = Some (JString (post_id p))"
  by (simp add: toObject_def)

lemma find_delete_first:
  "distinct (map f xs) \<Longrightarrow> find (\<lambda>p. f p = a) (delete_first (\<lambda>p. f p = a) xs) = None"
proof (induction xs)
  case Nil
  then show ?case by simp
next
  case (Cons x xs)
  show ?case
  proof (cases "f x = a")
    case True
    with Cons.prems have "a \<notin> f ` set xs" by simp
    then have "\<forall>y\<in>set xs. f y \<noteq> a" by blast
    with True show ?thesis by (simp add: find_None_iff)
  next
    case False
    with Cons show ?thesis by simp
  qed
qed

lemma set_delete_first: "set (delete_first P xs) \<subseteq> set xs"
  by (induction xs) auto

lemma distinct_delete_first: "distinct (map f xs) \<Longrightarrow> distinct (map f (delete_first P xs))"
  using set_delete_first [of P] by (induction xs) auto

text \<open>
  Identifiers stay unique: a save rejects a taken identifier, and removing a document
  adds none. So the uniqueness that \<^verbatim>\<open>_id\<close>'s index enforces holds of every repository the
  handlers produce from one that has it.
\<close>

lemma compose_keeps_ids_distinct:
  assumes "distinct (map post_id repo)"
  shows "distinct (map post_id (snd (compose env repo req)))"
  using assms
  by (auto simp: compose_def compose_handler_def save_def Let_def
      split: sum.splits option.splits if_splits)

lemma delete_post_keeps_ids_distinct:
  assumes "distinct (map post_id repo)"
  shows "distinct (map post_id (snd (delete_post env repo postID)))"
  using assms
  by (auto simp: delete_post_def deleteOne_def distinct_delete_first
      split: sum.splits option.splits if_splits)

lemma those_Some_map: "those ys = Some xs \<Longrightarrow> ys = map Some xs"
  by (induction ys arbitrary: xs) (auto split: option.splits)

lemma promise_all_Some:
  assumes "promise_all order tasks = Some xs"
  shows "xs = tasks"
proof -
  let ?slots = "settle order tasks (replicate (length tasks) None)"
  from assms have slots: "?slots = map Some xs"
    by (simp add: promise_all_def those_Some_map)
  from arg_cong [OF slots, of length] have len: "length xs = length tasks"
    by (simp add: length_settle)
  have "xs ! i = tasks ! i" if "i < length tasks" for i
  proof -
    from that have "?slots ! i = (if i \<in> set order then Some (tasks ! i) else None)"
      using nth_settle [of "replicate (length tasks) None" tasks i order] by simp
    with slots that len show ?thesis by (simp split: if_splits)
  qed
  with len show ?thesis by (simp add: nth_equalityI)
qed

lemma list_posts_complete:
  assumes "db_ok env Find" and "{0..<length repo} \<subseteq> set order"
  shows "list_posts env order repo = Responded (send_json 200 (JArray (map (with_url env) repo)))"
  using assms by (simp add: list_posts_def find_all_def promise_all_complete)

lemma list_posts_200:
  assumes "list_posts env order repo = Responded res" and "status res = 200"
  shows "res = send_json 200 (JArray (map (with_url env) repo))"
  using assms
  by (auto simp: list_posts_def find_all_def send_def send_json_def
      split: if_splits option.splits dest: promise_all_Some)

lemma field_with_url_imageUrl:
  "field ''imageUrl'' (with_url env p) =
     Some (case getSignedUrl env (list_command env p) \<lparr>expiresIn = 3600\<rparr> of
             None \<Rightarrow> JNull | Some url \<Rightarrow> JString url)"
  by (simp add: with_url_def map_of_put_field split: option.splits)

lemma field_with_url_imageKey:
  "field ''imageKey'' (with_url env p) = Some (JString (imageKey p))"
  by (simp add: with_url_def map_of_put_field field_imageKey split: option.splits)

lemma field_with_url_id:
  "field ''_id'' (with_url env p) = Some (JString (post_id p))"
  by (simp add: with_url_def map_of_put_field field_id split: option.splits)

lemma sample_compose_run:
  "compose sample_env [post1, post2] sample_request =
     (Responded \<lparr>status = 201, body = Json (JObject
        [(''_id'', JString ''p3''), (''title'', JString ''Hello''), (''content'', JString ''World''),
         (''imageKey'', JString ''Images/file_1700000000000.png''), (''__v'', JNumber 0)])\<rparr>,
      [post1, post2, post3])"
  by (simp add: compose_def upload_single_def upload_key_def compose_handler_def save_def
      send_json_def toObject_def optional_field_def number_to_string_def decimal.simps
      sample_env_def sample_request_def post1_def post2_def post3_def)

lemma sample_list_run:
  "list_posts sample_env [0] [post1] =
     Responded \<lparr>status = 200, body = Json (JArray
       [JObject [(''_id'', JString ''p1''), (''title'', JString ''Hello''),
                 (''content'', JString ''World''), (''imageKey'', JString ''Images/file_1.png''),
                 (''__v'', JNumber 0),
                 (''imageUrl'', JString ''https://signed/Images/file_1.png?type=image/jpeg'')]])\<rparr>"
  by (simp add: list_posts_def find_all_def promise_all_def with_url_def list_command_def
      toObject_def optional_field_def send_json_def sample_env_def post1_def)

section \<open>The delete workflow\<close>

text \<open>
  C1. When the lookup by identifier finds the record and the object store rejects the
  deletion of its image, the delete handler answers 500 and leaves the repository as it
  was: the record is still found afterwards.
\<close>

theorem delete_store_failure_keeps_record:
  assumes "findById env repo postID = Inr (Some p)"
    and "\<not> s3_delete env \<lparr>Bucket = S3_BUCKET_NAME env, Key = imageKey p\<rparr>"
  shows "delete_post env repo postID = (send 500 ''Error deleting post'', repo)
    \<and> status (fst (delete_post env repo postID)) = 500
    \<and> snd (delete_post env repo postID) = repo
    \<and> findById env (snd (delete_post env repo postID)) postID = Inr (Some p)"
  using assms by (simp add: delete_post_def send_def)

theorem delete_store_failure_keeps_record_witness:
  "delete_post (sample_env\<lparr>s3_delete := \<lambda>obj. False\<rparr>) [post1, post2] ''p2''
     = (\<lparr>status = 500, body = Text ''Error deleting post''\<rparr>, [post1, post2])
   \<and> findById (sample_env\<lparr>s3_delete := \<lambda>obj. False\<rparr>) [post1, post2] ''p2'' = Inr (Some post2)"
proof -
  let ?env = "sample_env\<lparr>s3_delete := \<lambda>obj. False\<rparr>"
  have found: "findById ?env [post1, post2] ''p2'' = Inr (Some post2)"
    by (simp add: findById_def sample_env_def post1_def post2_def)
  have fails: "\<not> s3_delete ?env \<lparr>Bucket = S3_BUCKET_NAME ?env, Key = imageKey post2\<rparr>"
    by simp
  from delete_store_failure_keeps_record [OF found fails] found
  show ?thesis by (simp add: send_def)
qed

section \<open>The detail workflow\<close>

text \<open>
  C3. When the record exists and signing the URL of its image fails, the detail handler
  answers 500 with a plain text body: no post object, with or without an image URL, is
  sent.
\<close>

theorem detail_signing_failure_fails:
  assumes "findOne env repo postID = Inr (Some p)"
    and "getSignedUrl env (detail_command env p) \<lparr>expiresIn = 3600\<rparr> = None"
  shows "get_post env repo postID = \<lparr>status = 500, body = Text ''Error fetching post''\<rparr>"
  using assms by (simp add: get_post_def send_def)

theorem detail_signing_failure_fails_witness:
  "findOne sample_env [post1, post2] ''p2'' = Inr (Some post2)
   \<and> get_post sample_env [post1, post2] ''p2''
       = \<lparr>status = 500, body = Text ''Error fetching post''\<rparr>"
proof -
  have found: "findOne sample_env [post1, post2] ''p2'' = Inr (Some post2)"
    by (simp add: findOne_def sample_env_def post1_def post2_def)
  have fails: "getSignedUrl sample_env (detail_command sample_env post2) \<lparr>expiresIn = 3600\<rparr> = None"
    by (simp add: sample_env_def detail_command_def post2_def)
  from detail_signing_failure_fails [OF found fails] found show ?thesis by simp
qed

section \<open>Deleting, then reading\<close>

text \<open>
  C8. When the record is found, the object store deletes the image and the database
  deletes the record, the delete handler answers 200 with its plain confirmation, and a
  later detail request for the same identifier, whose lookup does not itself fail,
  answers 404. Identifiers are unique in the collection.
\<close>

theorem delete_then_detail_not_found:
  assumes "distinct (map post_id repo)"
    and "findById env repo postID = Inr (Some p)"
    and "s3_delete env \<lparr>Bucket = S3_BUCKET_NAME env, Key = imageKey p\<rparr>"
    and "db_ok env DeleteOne"
    and "cast_object_id env' postID"
    and "db_ok env' FindOne"
  shows "fst (delete_post env repo postID) = \<lparr>status = 200, body = Text ''Post and image deleted''\<rparr>
    \<and> get_post env' (snd (delete_post env repo postID)) postID
        = \<lparr>status = 404, body = Text ''Post not found''\<rparr>"
proof -
  from assms(2) have cast: "cast_object_id env postID"
    by (auto simp: findById_def split: if_splits)
  with assms(2-4) have del:
    "delete_post env repo postID =
       (send 200 ''Post and image deleted'', delete_first (\<lambda>q. post_id q = postID) repo)"
    by (simp add: delete_post_def deleteOne_def)
  from assms(1) have gone:
    "find (\<lambda>q. post_id q = postID) (delete_first (\<lambda>q. post_id q = postID) repo) = None"
    by (rule find_delete_first)
  with assms(5,6) have
    "get_post env' (delete_first (\<lambda>q. post_id q = postID) repo) postID = send 404 ''Post not found''"
    by (simp add: get_post_def findOne_def)
  with del show ?thesis by (simp add: send_def)
qed

theorem delete_then_detail_not_found_witness:
  "fst (delete_post sample_env [post1, post2] ''p1'')
     = \<lparr>status = 200, body = Text ''Post and image deleted''\<rparr>
   \<and> snd (delete_post sample_env [post1, post2] ''p1'') = [post2]
   \<and> get_post sample_env (snd (delete_post sample_env [post1, post2] ''p1'')) ''p1''
       = \<lparr>status = 404, body = Text ''Post not found''\<rparr>"
proof -
  have d: "distinct (map post_id [post1, post2])"
    by (simp add: post1_def post2_def)
  have f: "findById sample_env [post1, post2] ''p1'' = Inr (Some post1)"
    by (simp add: findById_def sample_env_def post1_def)
  have s: "s3_delete sample_env \<lparr>Bucket = S3_BUCKET_NAME sample_env, Key = imageKey post1\<rparr>"
    by (simp add: sample_env_def)
  have o: "db_ok sample_env DeleteOne" "cast_object_id sample_env ''p1''" "db_ok sample_env FindOne"
    by (simp_all add: sample_env_def)
  have r: "snd (delete_post sample_env [post1, post2] ''p1'') = [post2]"
    using f s o by (simp add: delete_post_def deleteOne_def post1_def)
  from delete_then_detail_not_found [OF d f s o] r show ?thesis by simp
qed

section \<open>Lookups that raise\<close>

text \<open>
  C9. Both handlers answer 404 exactly when the lookup succeeds and finds no record. When
  the lookup raises, as it does for an identifier that cannot be cast, the detail and the
  delete handler answer 500, and the repository is unchanged.
\<close>

theorem lookup_error_is_500:
  "(status (get_post env repo postID) = 404 \<longleftrightarrow> findOne env repo postID = Inr None)
   \<and> (status (fst (delete_post env repo postID)) = 404 \<longleftrightarrow> findById env repo postID = Inr None)
   \<and> ((\<exists>e. findOne env repo postID = Inl e) \<longrightarrow>
        get_post env repo postID = \<lparr>status = 500, body = Text ''Error fetching post''\<rparr>)
   \<and> ((\<exists>e. findById env repo postID = Inl e) \<longrightarrow>
        delete_post env repo postID = (\<lparr>status = 500, body = Text ''Error deleting post''\<rparr>, repo))
   \<and> (\<not> cast_object_id env postID \<longrightarrow>
        findOne env repo postID = Inl CastError \<and> findById env repo postID = Inl CastError)"
proof (intro conjI)
  show "status (get_post env repo postID) = 404 \<longleftrightarrow> findOne env repo postID = Inr None"
    by (auto simp: get_post_def send_def send_json_def split: sum.splits option.splits)
  show "status (fst (delete_post env repo postID)) = 404 \<longleftrightarrow> findById env repo postID = Inr None"
    by (auto simp: delete_post_def send_def split: sum.splits option.splits)
  show "(\<exists>e. findOne env repo postID = Inl e) \<longrightarrow>
        get_post env repo postID = \<lparr>status = 500, body = Text ''Error fetching post''\<rparr>"
    by (auto simp: get_post_def send_def)
  show "(\<exists>e. findById env repo postID = Inl e) \<longrightarrow>
        delete_post env repo postID = (\<lparr>status = 500, body = Text ''Error deleting post''\<rparr>, repo)"
    by (auto simp: delete_post_def send_def)
  show "\<not> cast_object_id env postID \<longrightarrow>
        findOne env repo postID = Inl CastError \<and> findById env repo postID = Inl CastError"
    by (simp add: findOne_def findById_def)
qed

theorem lookup_error_is_500_witness:
  "\<not> cast_object_id sample_env ''bad''
   \<and> get_post sample_env [post1] ''bad'' = \<lparr>status = 500, body = Text ''Error fetching post''\<rparr>
   \<and> delete_post sample_env [post1] ''bad''
       = (\<lparr>status = 500, body = Text ''Error deleting post''\<rparr>, [post1])"
proof -
  have bad: "\<not> cast_object_id sample_env ''bad''"
    by (simp add: sample_env_def)
  with lookup_error_is_500 [of sample_env "[post1]" "''bad''"] show ?thesis
    by simp
qed

section \<open>Composing without a file\<close>

text \<open>
  C4 (as the code has it). A compose request without a file part is answered 500 with the
  text of every other failure of the handler, and no record is created.
\<close>

theorem compose_without_file_is_500:
  assumes "files req = []"
  shows "compose env repo req = (Responded \<lparr>status = 500, body = Text ''Error saving post''\<rparr>, repo)"
  using assms by (simp add: compose_def upload_single_def compose_handler_def send_def)

theorem compose_without_file_is_500_witness:
  "files \<lparr>postTitle = Some ''Hello'', postContent = None, files = []\<rparr> = []
   \<and> compose sample_env [post1, post2] \<lparr>postTitle = Some ''Hello'', postContent = None, files = []\<rparr>
       = (Responded \<lparr>status = 500, body = Text ''Error saving post''\<rparr>, [post1, post2])"
  using compose_without_file_is_500
    [of "\<lparr>postTitle = Some ''Hello'', postContent = None, files = []\<rparr>" sample_env "[post1, post2]"]
  by simp

theorem compose_without_file_counterexample:
  "compose sample_env [] \<lparr>postTitle = Some ''Hello'', postContent = Some ''World'', files = []\<rparr>
     = (Responded \<lparr>status = 500, body = Text ''Error saving post''\<rparr>, [])"
  by (simp add: compose_def upload_single_def compose_handler_def send_def)

section \<open>The list workflow\<close>

text \<open>
  C2. When the repository returns its N posts, every signing request settles and signing
  fails for exactly one post, the list handler answers 200 with N items, exactly one of
  which has a null \<^verbatim>\<open>imageUrl\<close>; every item carries the outcome of its own signing request,
  the signed URL where there is one.
\<close>

theorem list_tolerates_one_signing_failure:
  assumes "db_ok env Find"
    and "{0..<length repo} \<subseteq> set order"
    and "length (filter (\<lambda>p. getSignedUrl env (list_command env p) \<lparr>expiresIn = 3600\<rparr> = None) repo) = 1"
  shows "\<exists>items.
      list_posts env order repo = Responded \<lparr>status = 200, body = Json (JArray items)\<rparr>
    \<and> length items = length repo
    \<and> length (filter (\<lambda>item. field ''imageUrl'' item = Some JNull) items) = 1
    \<and> map (field ''imageUrl'') items =
        map (\<lambda>p. case getSignedUrl env (list_command env p) \<lparr>expiresIn = 3600\<rparr> of
                    None \<Rightarrow> Some JNull | Some url \<Rightarrow> Some (JString url)) repo"
proof -
  let ?items = "map (with_url env) repo"
  have null_iff: "(field ''imageUrl'' (with_url env p) = Some JNull)
      = (getSignedUrl env (list_command env p) \<lparr>expiresIn = 3600\<rparr> = None)" for p
    by (simp add: field_with_url_imageUrl split: option.splits)
  have "list_posts env order repo = Responded \<lparr>status = 200, body = Json (JArray ?items)\<rparr>"
    using list_posts_complete [OF assms(1,2)] by (simp add: send_json_def)
  moreover have "length ?items = length repo" by simp
  moreover have "length (filter (\<lambda>item. field ''imageUrl'' item = Some JNull) ?items) = 1"
    using assms(3) by (simp add: filter_map comp_def null_iff)
  moreover have "map (field ''imageUrl'') ?items =
        map (\<lambda>p. case getSignedUrl env (list_command env p) \<lparr>expiresIn = 3600\<rparr> of
                    None \<Rightarrow> Some JNull | Some url \<Rightarrow> Some (JString url)) repo"
    by (simp add: field_with_url_imageUrl split: option.splits)
  ultimately show ?thesis by blast
qed

theorem list_tolerates_one_signing_failure_witness:
  "list_posts sample_env [1, 0] [post1, post2] =
     Responded \<lparr>status = 200, body = Json (JArray
       [JObject [(''_id'', JString ''p1''), (''title'', JString ''Hello''),
                 (''content'', JString ''World''), (''imageKey'', JString ''Images/file_1.png''),
                 (''__v'', JNumber 0),
                 (''imageUrl'', JString ''https://signed/Images/file_1.png?type=image/jpeg'')],
        JObject [(''_id'', JString ''p2''), (''content'', JString ''Two''),
                 (''imageKey'', JString ''Images/file_2.jpg''), (''__v'', JNumber 0),
                 (''imageUrl'', JNull)]])\<rparr>
   \<and> (\<exists>items. list_posts sample_env [1, 0] [post1, post2]
         = Responded \<lparr>status = 200, body = Json (JArray items)\<rparr>
       \<and> length items = 2
       \<and> length (filter (\<lambda>item. field ''imageUrl'' item = Some JNull) items) = 1)"
proof -
  have db: "db_ok sample_env Find"
    by (simp add: sample_env_def)
  have ord: "{0..<length [post1, post2]} \<subseteq> set [1, 0]"
    by auto
  have one: "length (filter (\<lambda>p. getSignedUrl sample_env (list_command sample_env p)
      \<lparr>expiresIn = 3600\<rparr> = None) [post1, post2]) = 1"
    by (simp add: sample_env_def list_command_def post1_def post2_def)
  have run: "list_posts sample_env [1, 0] [post1, post2] =
     Responded \<lparr>status = 200, body = Json (JArray
       [JObject [(''_id'', JString ''p1''), (''title'', JString ''Hello''),
                 (''content'', JString ''World''), (''imageKey'', JString ''Images/file_1.png''),
                 (''__v'', JNumber 0),
                 (''imageUrl'', JString ''https://signed/Images/file_1.png?type=image/jpeg'')],
        JObject [(''_id'', JString ''p2''), (''content'', JString ''Two''),
                 (''imageKey'', JString ''Images/file_2.jpg''), (''__v'', JNumber 0),
                 (''imageUrl'', JNull)]])\<rparr>"
    by (simp add: list_posts_def find_all_def promise_all_def with_url_def list_command_def
        toObject_def optional_field_def send_json_def sample_env_def post1_def post2_def)
  from list_tolerates_one_signing_failure [OF db ord one] run show ?thesis
    by auto
qed

text \<open>
  C7. Whatever the order in which the signing requests complete, a 200 answer of the list
  handler holds one item per repository post, and the i-th item is the i-th post of the
  repository with its image URL. When the repository returns its posts and every signing
  request settles, the handler does answer 200.
\<close>

theorem list_keeps_repository_order:
  "(\<forall>res. list_posts env order repo = Responded res \<and> status res = 200 \<longrightarrow>
      (\<exists>items. body res = Json (JArray items)
         \<and> length items = length repo
         \<and> (\<forall>i<length repo.
               items ! i = with_url env (repo ! i)
             \<and> field ''_id'' (items ! i) = Some (JString (post_id (repo ! i)))
             \<and> field ''imageKey'' (items ! i) = Some (JString (imageKey (repo ! i))))))
   \<and> (db_ok env Find \<and> {0..<length repo} \<subseteq> set order \<longrightarrow>
        (\<exists>res. list_posts env order repo = Responded res \<and> status res = 200))"
proof (intro conjI allI impI)
  fix res
  assume "list_posts env order repo = Responded res \<and> status res = 200"
  then have "res = send_json 200 (JArray (map (with_url env) repo))"
    using list_posts_200 by blast
  then have "body res = Json (JArray (map (with_url env) repo))"
    by (simp add: send_json_def)
  moreover have "\<forall>i<length repo.
      map (with_url env) repo ! i = with_url env (repo ! i)
    \<and> field ''_id'' (map (with_url env) repo ! i) = Some (JString (post_id (repo ! i)))
    \<and> field ''imageKey'' (map (with_url env) repo ! i) = Some (JString (imageKey (repo ! i)))"
    by (simp add: field_with_url_id field_with_url_imageKey)
  ultimately show "\<exists>items. body res = Json (JArray items)
         \<and> length items = length repo
         \<and> (\<forall>i<length repo.
               items ! i = with_url env (repo ! i)
             \<and> field ''_id'' (items ! i) = Some (JString (post_id (repo ! i)))
             \<and> field ''imageKey'' (items ! i) = Some (JString (imageKey (repo ! i))))"
    by (intro exI [of _ "map (with_url env) repo"]) simp
next
  assume "db_ok env Find \<and> {0..<length repo} \<subseteq> set order"
  then have "list_posts env order repo = Responded (send_json 200 (JArray (map (with_url env) repo)))"
    using list_posts_complete by blast
  then show "\<exists>res. list_posts env order repo = Responded res \<and> status res = 200"
    by (simp add: send_json_def)
qed

theorem list_keeps_repository_order_witness:
  "db_ok sample_env Find \<and> {0..<length [post2, post1]} \<subseteq> set [1, 0]
   \<and> (\<exists>res items. list_posts sample_env [1, 0] [post2, post1] = Responded res
        \<and> status res = 200 \<and> body res = Json (JArray items) \<and> length items = 2
        \<and> field ''_id'' (items ! 0) = Some (JString ''p2'')
        \<and> field ''_id'' (items ! 1) = Some (JString ''p1''))"
proof -
  have db: "db_ok sample_env Find"
    by (simp add: sample_env_def)
  have ord: "{0..<length [post2, post1]} \<subseteq> set [1, 0]"
    by auto
  from list_keeps_repository_order [of sample_env "[1, 0]" "[post2, post1]"] db ord
  obtain res where res: "list_posts sample_env [1, 0] [post2, post1] = Responded res"
    "status res = 200"
    by blast
  with list_keeps_repository_order [of sample_env "[1, 0]" "[post2, post1]"]
  obtain items where items: "body res = Json (JArray items)" "length items = length [post2, post1]"
    "\<forall>i<length [post2, post1]. field ''_id'' (items ! i) = Some (JString (post_id ([post2, post1] ! i)))"
    by blast
  from items(3) have "field ''_id'' (items ! 0) = Some (JString ''p2'')"
    "field ''_id'' (items ! 1) = Some (JString ''p1'')"
    by (simp_all add: post1_def post2_def)
  with db ord res items(1,2) show ?thesis by auto
qed

section \<open>What the handlers ask the signer\<close>

text \<open>
  C10. The list handler signs, for each post, a request for the post's key in the
  configured bucket with the response content type set to \<^verbatim>\<open>image/jpeg\<close>, whatever the key's
  extension; the detail handler signs a request for the same bucket and key with no
  response content type. Both ask for an expiry of 3600 seconds. The answers of the two
  handlers are the signer's outcomes on exactly these requests.
\<close>

theorem signing_requests:
  "list_command env p =
     \<lparr>Bucket = S3_BUCKET_NAME env, Key = imageKey p, ResponseContentType = Some ''image/jpeg''\<rparr>
   \<and> detail_command env p =
     \<lparr>Bucket = S3_BUCKET_NAME env, Key = imageKey p, ResponseContentType = None\<rparr>
   \<and> (db_ok env Find \<and> {0..<length repo} \<subseteq> set order \<longrightarrow>
        (\<exists>items. list_posts env order repo = Responded \<lparr>status = 200, body = Json (JArray items)\<rparr>
           \<and> map (field ''imageUrl'') items =
               map (\<lambda>q. Some (case getSignedUrl env
                             \<lparr>Bucket = S3_BUCKET_NAME env, Key = imageKey q,
                              ResponseContentType = Some ''image/jpeg''\<rparr>
                             \<lparr>expiresIn = 3600\<rparr> of
                           None \<Rightarrow> JNull | Some url \<Rightarrow> JString url)) repo))
   \<and> (findOne env repo postID = Inr (Some p) \<longrightarrow>
        get_post env repo postID =
          (case getSignedUrl env
                  \<lparr>Bucket = S3_BUCKET_NAME env, Key = imageKey p, ResponseContentType = None\<rparr>
                  \<lparr>expiresIn = 3600\<rparr> of
             None \<Rightarrow> \<lparr>status = 500, body = Text ''Error fetching post''\<rparr>
           | Some url \<Rightarrow>
               \<lparr>status = 200,
                body = Json (JObject (put_field ''imageUrl'' (JString url) (toObject p)))\<rparr>))"
proof (intro conjI impI)
  show "list_command env p =
     \<lparr>Bucket = S3_BUCKET_NAME env, Key = imageKey p, ResponseContentType = Some ''image/jpeg''\<rparr>"
    by (simp add: list_command_def)
  show "detail_command env p =
     \<lparr>Bucket = S3_BUCKET_NAME env, Key = imageKey p, ResponseContentType = None\<rparr>"
    by (simp add: detail_command_def)
next
  assume "db_ok env Find \<and> {0..<length repo} \<subseteq> set order"
  then have "list_posts env order repo =
      Responded \<lparr>status = 200, body = Json (JArray (map (with_url env) repo))\<rparr>"
    using list_posts_complete [of env repo order] by (simp add: send_json_def)
  moreover have "map (field ''imageUrl'') (map (with_url env) repo) =
               map (\<lambda>q. Some (case getSignedUrl env
                             \<lparr>Bucket = S3_BUCKET_NAME env, Key = imageKey q,
                              ResponseContentType = Some ''image/jpeg''\<rparr>
                             \<lparr>expiresIn = 3600\<rparr> of
                           None \<Rightarrow> JNull | Some url \<Rightarrow> JString url)) repo"
    by (simp add: field_with_url_imageUrl list_command_def)
  ultimately show "\<exists>items. list_posts env order repo = Responded \<lparr>status = 200, body = Json (JArray items)\<rparr>
           \<and> map (field ''imageUrl'') items =
               map (\<lambda>q. Some (case getSignedUrl env
                             \<lparr>Bucket = S3_BUCKET_NAME env, Key = imageKey q,
                              ResponseContentType = Some ''image/jpeg''\<rparr>
                             \<lparr>expiresIn = 3600\<rparr> of
                           None \<Rightarrow> JNull | Some url \<Rightarrow> JString url)) repo"
    by blast
next
  assume "findOne env repo postID = Inr (Some p)"
  then show "get_post env repo postID =
          (case getSignedUrl env
                  \<lparr>Bucket = S3_BUCKET_NAME env, Key = imageKey p, ResponseContentType = None\<rparr>
                  \<lparr>expiresIn = 3600\<rparr> of
             None \<Rightarrow> \<lparr>status = 500, body = Text ''Error fetching post''\<rparr>
           | Some url \<Rightarrow>
               \<lparr>status = 200,
                body = Json (JObject (put_field ''imageUrl'' (JString url) (toObject p)))\<rparr>)"
    by (simp add: get_post_def detail_command_def send_def send_json_def split: option.splits)
qed

theorem signing_requests_witness:
  "db_ok sample_env Find \<and> {0..<length [post1]} \<subseteq> set [0]
   \<and> findOne sample_env [post1] ''p1'' = Inr (Some post1)
   \<and> (\<exists>items. list_posts sample_env [0] [post1]
          = Responded \<lparr>status = 200, body = Json (JArray items)\<rparr>
        \<and> map (field ''imageUrl'') items
          = [Some (JString ''https://signed/Images/file_1.png?type=image/jpeg'')])
   \<and> field ''imageUrl'' (case body (get_post sample_env [post1] ''p1'') of Json v \<Rightarrow> v | Text t \<Rightarrow> JNull)
       = Some (JString ''https://signed/Images/file_1.png'')"
proof -
  have db: "db_ok sample_env Find"
    by (simp add: sample_env_def)
  have ord: "{0..<length [post1]} \<subseteq> set [0]"
    by simp
  have found: "findOne sample_env [post1] ''p1'' = Inr (Some post1)"
    by (simp add: findOne_def sample_env_def post1_def)
  have sign_list: "getSignedUrl sample_env
      \<lparr>Bucket = S3_BUCKET_NAME sample_env, Key = imageKey post1,
       ResponseContentType = Some ''image/jpeg''\<rparr> \<lparr>expiresIn = 3600\<rparr>
     = Some ''https://signed/Images/file_1.png?type=image/jpeg''"
    by (simp add: sample_env_def post1_def)
  have sign_detail: "getSignedUrl sample_env
      \<lparr>Bucket = S3_BUCKET_NAME sample_env, Key = imageKey post1,
       ResponseContentType = None\<rparr> \<lparr>expiresIn = 3600\<rparr>
     = Some ''https://signed/Images/file_1.png''"
    by (simp add: sample_env_def post1_def)
  from signing_requests [of sample_env post1 "[post1]" "[0]" "''p1''"] db ord found
    sign_list sign_detail
  show ?thesis by (simp add: map_of_put_field)
qed

section \<open>The key of an uploaded image\<close>

text \<open>
  C6. A compose request answered 201 carried exactly one file part, in the field
  \<^verbatim>\<open>file\<close>, and the record it added stores the key
  \<^verbatim>\<open>Images/<field>_<timestamp><extension>\<close>: the field name, the clock's milliseconds in
  decimal, and \<^verbatim>\<open>path.extname\<close> of the part's original name. The key is not empty and ends
  in that extension.
\<close>

theorem composed_key_form:
  assumes "compose env repo req = (Responded res, repo')"
    and "status res = 201"
  shows "\<exists>file. files req = [file]
    \<and> fieldname file = ''file''
    \<and> repo' = repo @ [\<lparr>post_id = fresh_id env, title = postTitle req, content = postContent req,
          imageKey = ''Images/'' @ fieldname file @ ''_'' @ number_to_string (date_now env)
                       @ path_extname env (originalname file)\<rparr>]
    \<and> imageKey (last repo') \<noteq> []
    \<and> prefix ''Images/file_'' (imageKey (last repo'))
    \<and> suffix (path_extname env (originalname file)) (imageKey (last repo'))"
proof -
  from assms obtain req_file where
    up: "upload_single env ''file'' (files req) = Inr req_file" and
    h: "compose_handler env repo req req_file = (res, repo')"
    by (auto simp: compose_def split: sum.splits prod.splits)
  from h assms(2) obtain stored where stored: "req_file = Some stored"
    by (cases req_file) (auto simp: compose_handler_def send_def)
  with up obtain f where part: "files req = [f]" "fieldname f = ''file''"
    "key stored = upload_key env f"
    by (auto simp: upload_single_def split: list.splits if_splits)
  let ?p = "\<lparr>post_id = fresh_id env, title = postTitle req, content = postContent req,
      imageKey = key stored\<rparr>"
  from h stored assms(2) have repo': "repo' = repo @ [?p]"
    by (auto simp: compose_handler_def save_def send_def Let_def split: sum.splits if_splits)
  have key_eq: "key stored = ''Images/'' @ fieldname f @ ''_'' @ number_to_string (date_now env)
      @ path_extname env (originalname f)"
    using part(3) by (simp add: upload_key_def)
  have "imageKey (last repo') = key stored"
    using repo' by simp
  moreover have "key stored \<noteq> []"
    using key_eq by simp
  moreover have "prefix ''Images/file_'' (key stored)"
    using key_eq part(2) by simp
  moreover have "suffix (path_extname env (originalname f)) (key stored)"
    unfolding key_eq suffix_def
    by (intro exI [of _ "''Images/'' @ fieldname f @ ''_'' @ number_to_string (date_now env)"]) simp
  ultimately show ?thesis
    using part(1,2) repo' key_eq by auto
qed

theorem composed_key_form_witness:
  "compose sample_env [post1, post2] sample_request =
     (Responded \<lparr>status = 201, body = Json (JObject
        [(''_id'', JString ''p3''), (''title'', JString ''Hello''), (''content'', JString ''World''),
         (''imageKey'', JString ''Images/file_1700000000000.png''), (''__v'', JNumber 0)])\<rparr>,
      [post1, post2, post3])
   \<and> imageKey (last [post1, post2, post3]) = ''Images/file_1700000000000.png''
   \<and> suffix ''.png'' (imageKey (last [post1, post2, post3]))"
proof -
  have ok: "status \<lparr>status = 201, body = Json (JObject
        [(''_id'', JString ''p3''), (''title'', JString ''Hello''), (''content'', JString ''World''),
         (''imageKey'', JString ''Images/file_1700000000000.png''), (''__v'', JNumber 0)])\<rparr> = 201"
    by simp
  from composed_key_form [OF sample_compose_run ok]
  have "suffix (path_extname sample_env ''cat.png'') (imageKey (last [post1, post2, post3]))"
    by (auto simp: sample_request_def)
  then have "suffix ''.png'' (imageKey (last [post1, post2, post3]))"
    by (simp add: sample_env_def)
  moreover have "imageKey (last [post1, post2, post3]) = ''Images/file_1700000000000.png''"
    by (simp add: post3_def)
  ultimately show ?thesis
    using sample_compose_run by simp
qed

section \<open>What the responses show of a post\<close>

text \<open>
  C5 (as the code has it). The serialised posts sent to the caller contain the
  \<^verbatim>\<open>imageKey\<close> property with the stored key: in every item of a 200 answer of the list
  handler, in the object of a 200 answer of the detail handler, both next to the derived
  \<^verbatim>\<open>imageUrl\<close>, and in the object of a 201 answer of the compose handler.
\<close>

theorem responses_contain_imageKey:
  "(\<forall>res. list_posts env order repo = Responded res \<and> status res = 200 \<longrightarrow>
      (\<exists>items. body res = Json (JArray items)
         \<and> map (field ''imageKey'') items = map (\<lambda>p. Some (JString (imageKey p))) repo
         \<and> list_all (\<lambda>item. field ''imageUrl'' item \<noteq> None) items))
   \<and> (status (get_post env repo postID) = 200 \<longrightarrow>
        (\<exists>p obj url. findOne env repo postID = Inr (Some p)
           \<and> body (get_post env repo postID) = Json obj
           \<and> field ''imageKey'' obj = Some (JString (imageKey p))
           \<and> field ''imageUrl'' obj = Some (JString url)))
   \<and> (\<forall>res repo'. compose env repo req = (Responded res, repo') \<and> status res = 201 \<longrightarrow>
        (\<exists>obj. body res = Json obj
           \<and> field ''imageKey'' obj = Some (JString (imageKey (last repo')))))"
proof (intro conjI allI impI)
  fix res
  assume "list_posts env order repo = Responded res \<and> status res = 200"
  then have "res = send_json 200 (JArray (map (with_url env) repo))"
    using list_posts_200 by blast
  then have "body res = Json (JArray (map (with_url env) repo))"
    by (simp add: send_json_def)
  moreover have "map (field ''imageKey'') (map (with_url env) repo)
      = map (\<lambda>p. Some (JString (imageKey p))) repo"
    by (simp add: field_with_url_imageKey)
  moreover have "list_all (\<lambda>item. field ''imageUrl'' item \<noteq> None) (map (with_url env) repo)"
    by (simp add: list_all_iff field_with_url_imageUrl)
  ultimately show "\<exists>items. body res = Json (JArray items)
         \<and> map (field ''imageKey'') items = map (\<lambda>p. Some (JString (imageKey p))) repo
         \<and> list_all (\<lambda>item. field ''imageUrl'' item \<noteq> None) items"
    by blast
next
  assume ok: "status (get_post env repo postID) = 200"
  then obtain p where found: "findOne env repo postID = Inr (Some p)"
    by (auto simp: get_post_def send_def split: sum.splits option.splits)
  with ok obtain url where
    url: "getSignedUrl env (detail_command env p) \<lparr>expiresIn = 3600\<rparr> = Some url"
    by (auto simp: get_post_def send_def split: option.splits)
  from found url have "body (get_post env repo postID)
      = Json (JObject (put_field ''imageUrl'' (JString url) (toObject p)))"
    by (simp add: get_post_def send_json_def)
  moreover have "field ''imageKey'' (JObject (put_field ''imageUrl'' (JString url) (toObject p)))
      = Some (JString (imageKey p))"
    by (simp add: map_of_put_field field_imageKey)
  moreover have "field ''imageUrl'' (JObject (put_field ''imageUrl'' (JString url) (toObject p)))
      = Some (JString url)"
    by (rule field_imageUrl)
  ultimately show "\<exists>p obj url. findOne env repo postID = Inr (Some p)
           \<and> body (get_post env repo postID) = Json obj
           \<and> field ''imageKey'' obj = Some (JString (imageKey p))
           \<and> field ''imageUrl'' obj = Some (JString url)"
    using found by blast
next
  fix res repo'
  assume "compose env repo req = (Responded res, repo') \<and> status res = 201"
  then show "\<exists>obj. body res = Json obj
           \<and> field ''imageKey'' obj = Some (JString (imageKey (last repo')))"
    by (auto simp: compose_def compose_handler_def save_def send_def send_json_def Let_def
        field_imageKey split: sum.splits option.splits if_splits)
qed

theorem responses_contain_imageKey_witness:
  "(\<exists>res items. list_posts sample_env [0] [post1] = Responded res \<and> status res = 200
       \<and> body res = Json (JArray items)
       \<and> map (field ''imageKey'') items = [Some (JString ''Images/file_1.png'')])
   \<and> status (get_post sample_env [post1, post2] ''p1'') = 200
   \<and> (\<exists>obj. body (get_post sample_env [post1, post2] ''p1'') = Json obj
         \<and> field ''imageKey'' obj = Some (JString ''Images/file_1.png''))
   \<and> (\<exists>res. fst (compose sample_env [post1, post2] sample_request) = Responded res
         \<and> status res = 201
         \<and> (\<exists>obj. body res = Json obj
               \<and> field ''imageKey'' obj = Some (JString ''Images/file_1700000000000.png'')))"
proof -
  note facts = responses_contain_imageKey
    [of sample_env "[0]" "[post1, post2]" "''p1''" sample_request]
  have "\<exists>res items. list_posts sample_env [0] [post1] = Responded res \<and> status res = 200
       \<and> body res = Json (JArray items)
       \<and> map (field ''imageKey'') items = [Some (JString ''Images/file_1.png'')]"
    using sample_list_run by simp
  moreover have ok: "status (get_post sample_env [post1, post2] ''p1'') = 200"
    by (simp add: get_post_def findOne_def detail_command_def send_json_def sample_env_def
        post1_def)
  moreover have found: "findOne sample_env [post1, post2] ''p1'' = Inr (Some post1)"
    by (simp add: findOne_def sample_env_def post1_def)
  from facts ok found have "\<exists>obj. body (get_post sample_env [post1, post2] ''p1'') = Json obj
         \<and> field ''imageKey'' obj = Some (JString (imageKey post1))"
    by auto
  then have "\<exists>obj. body (get_post sample_env [post1, post2] ''p1'') = Json obj
         \<and> field ''imageKey'' obj = Some (JString ''Images/file_1.png'')"
    by (simp add: post1_def)
  moreover have "\<exists>res. fst (compose sample_env [post1, post2] sample_request) = Responded res
         \<and> status res = 201
         \<and> (\<exists>obj. body res = Json obj
               \<and> field ''imageKey'' obj = Some (JString ''Images/file_1700000000000.png''))"
    using sample_compose_run by simp
  ultimately show ?thesis by blast
qed

theorem imageKey_exposed_counterexample:
  "list_posts sample_env [0] [post1] =
     Responded \<lparr>status = 200, body = Json (JArray
       [JObject [(''_id'', JString ''p1''), (''title'', JString ''Hello''),
                 (''content'', JString ''World''), (''imageKey'', JString ''Images/file_1.png''),
                 (''__v'', JNumber 0),
                 (''imageUrl'', JString ''https://signed/Images/file_1.png?type=image/jpeg'')]])\<rparr>
   \<and> field ''imageKey'' (JObject [(''_id'', JString ''p1''), (''title'', JString ''Hello''),
                 (''content'', JString ''World''), (''imageKey'', JString ''Images/file_1.png''),
                 (''__v'', JNumber 0),
                 (''imageUrl'', JString ''https://signed/Images/file_1.png?type=image/jpeg'')])
       = Some (JString ''Images/file_1.png'')"
  using sample_list_run by simp

end
